theory Spec2Isabelle
  imports Main "HOL-Library.Word"
begin

section \<open>Data model\<close>

text \<open>
  An identity is the TypeScript tuple \<open>[number, number, number]\<close>: instance low byte,
  instance high byte, class. The components are JavaScript numbers, so they are integers
  here: the selection sentinel \<open>[-1, -1, -1]\<close> is a value of the type although no pixel
  holds it.
\<close>

type_synonym ident = "int \<times> int \<times> int"
type_synonym point = "int \<times> int"
type_synonym byte = "8 word"
type_synonym extrema = "int \<times> int \<times> int \<times> int"

datatype error = OutOfBounds | SizeMismatch | InvalidRange | TypeError

datatype fillType = Add | Remove

datatype EditionMode = ADD_TO_INSTANCE | REMOVE_FROM_INSTANCE | NEW_INSTANCE

datatype LockType = LockInstance | LockClass

text \<open>The third component of an identity, \<open>id[2]\<close> in the source.\<close>

definition classOf :: "ident \<Rightarrow> int" where
  "classOf i = snd (snd i)"

subsection \<open>Helpers of utils-mask\<close>

text \<open>
  Modelled from the spec: \<open>fuseId\<close> of utils-mask is imported by the controllers and is
  not among the sources. The spec gives the fused id as
  \<open>classId*65536 + instanceHigh*256 + instanceLow\<close>.
\<close>

definition fuseId :: "ident \<Rightarrow> int" where
  "fuseId i = (case i of (lo, hi, c) \<Rightarrow> c * 65536 + hi * 256 + lo)"

text \<open>
  Modelled from the spec: \<open>unfuseId\<close> of utils-mask is not among the sources. It is
  the inverse of \<open>fuseId\<close> on byte triples.
\<close>

definition unfuseId :: "int \<Rightarrow> ident" where
  "unfuseId k = (k mod 256, (k div 256) mod 256, k div 65536)"

text \<open>
  Modelled from the spec: \<open>arraysMatch\<close> of utils-mask is not among the sources. The
  callers use it to compare an identity with \<open>[0,0,0]\<close>, the spec's
  \<open>equalsBackground\<close>: true iff the components agree.
\<close>

definition arraysMatch :: "ident \<Rightarrow> ident \<Rightarrow> bool" where
  "arraysMatch a b = (a = b)"

text \<open>
  Modelled from the spec: \<open>convertIndexToDict\<close> of utils-mask is not among the sources.
  Contour points are lattice corners, stored as indices into a grid that is
  \<open>canvas.width + 1\<close> corners wide (the second argument at both call sites); the
  result is the list of \<open>{x, y}\<close> points.
\<close>

definition convertIndexToDict :: "nat list \<Rightarrow> nat \<Rightarrow> point list" where
  "convertIndexToDict pts w = map (\<lambda>i. (int (i mod w), int (i div w))) pts"

subsection \<open>JavaScript sets\<close>

text \<open>
  A JavaScript \<open>Set\<close> iterates in insertion order and holds no duplicates: a list
  whose \<open>add\<close> appends only a new element and whose \<open>delete\<close> removes the element.
\<close>

definition set_add :: "'a \<Rightarrow> 'a list \<Rightarrow> 'a list" where
  "set_add x xs = (if x \<in> set xs then xs else xs @ [x])"

definition set_delete :: "'a \<Rightarrow> 'a list \<Rightarrow> 'a list" where
  "set_delete x xs = removeAll x xs"

subsection \<open>The mask and the blobs\<close>

text \<open>
  The class \<open>GraphicMask\<close> is imported from \<open>./graphics\<close> and is not among the
  sources; its fields are the ones the sources read and write: \<open>canvas.width\<close>,
  \<open>canvas.height\<close>, \<open>clsMap\<close> (class index to \<open>[r, g, b, isInstance]\<close>),
  \<open>fusedIds\<close> and \<open>lockedInstances\<close>. The raster is the spec's pixel store:
  four bytes per pixel, \<open>[idLow, idHigh, classId, reserved]\<close>.
\<close>

record GraphicMask =
  canvas_width :: nat
  canvas_height :: nat
  raster :: "byte list"
  clsMap :: "int \<rightharpoonup> (int \<times> int \<times> int \<times> int)"
  fusedIds :: "int list"
  lockedInstances :: "int list"

record Contour =
  points :: "nat list"
  ctype :: string

record Blob =
  contours :: "Contour list"
  nbPixels :: nat

record DensePolygon =
  ptype :: string
  pdata :: "point list"

section \<open>The mask engine, from the spec\<close>

text \<open>
  Modelled from the spec: the codec of \<open>GraphicMask\<close> is not among the sources. The
  spec's \<open>encode\<close> fails with \<open>InvalidRange\<close> if a component exceeds its byte.
\<close>

definition validIdent :: "ident \<Rightarrow> bool" where
  "validIdent i = (case i of (lo, hi, c) \<Rightarrow>
     0 \<le> lo \<and> lo \<le> 255 \<and> 0 \<le> hi \<and> hi \<le> 255 \<and> 0 \<le> c \<and> c \<le> 255)"

text \<open>
  Modelled from the spec: channel \<open>k\<close> (0, 1 or 2) of the pixel that the spec's
  \<open>encode\<close> writes for an identity, in the layout \<open>[idLow, idHigh, classId, reserved]\<close>.
\<close>

definition encodeByte :: "ident \<Rightarrow> nat \<Rightarrow> byte" where
  "encodeByte i k = (case i of (lo, hi, c) \<Rightarrow>
     word_of_int (if k = 0 then lo else if k = 1 then hi else c))"

text \<open>
  Modelled from the spec: the spec's \<open>decode\<close> on the three identity bytes of pixel
  \<open>idx\<close>; any byte pattern is an identity.
\<close>

definition decodeAt :: "byte list \<Rightarrow> nat \<Rightarrow> ident" where
  "decodeAt r idx = (uint (r ! (4 * idx)), uint (r ! (4 * idx + 1)), uint (r ! (4 * idx + 2)))"

text \<open>
  Modelled from the spec: \<open>GraphicMask.pixelId\<close> is not among the sources. The spec's
  \<open>pixelIdentity\<close> is a bounds-checked read that decodes the pixel and fails with
  \<open>OutOfBounds\<close> outside the raster; the source calls it with the pixel index
  \<open>x + y * width\<close>.
\<close>

definition pixelId :: "GraphicMask \<Rightarrow> nat \<Rightarrow> error + ident" where
  "pixelId g idx =
     (if 4 * idx + 3 < length (raster g) then Inr (decodeAt (raster g) idx)
      else Inl OutOfBounds)"

text \<open>
  Modelled from the spec: \<open>GraphicMask.empty\<close> is not among the sources. The spec's
  \<open>empty(width, height)\<close> allocates a zero-filled raster of the given size and clears
  the known and the locked ids.
\<close>

definition empty_mask :: "nat \<Rightarrow> nat \<Rightarrow> GraphicMask \<Rightarrow> GraphicMask" where
  "empty_mask w h g =
     g\<lparr>canvas_width := w, canvas_height := h, raster := replicate (w * h * 4) 0,
       fusedIds := [], lockedInstances := []\<rparr>"



subsection \<open>The raster painter\<close>

text \<open>
  Modelled from the spec: the painter of \<open>GraphicMask\<close> is not among the sources. This
  is the spec's write rule for one covered pixel whose current identity is \<open>cur\<close>:
  with \<open>add\<close> the target is written unless \<open>cur\<close> is locked; with \<open>remove\<close> the
  pixel is cleared to background only if \<open>cur\<close> equals the target and is not locked.
\<close>

definition writeRule :: "int list \<Rightarrow> ident \<Rightarrow> fillType \<Rightarrow> ident \<Rightarrow> bool" where
  "writeRule locked target ft cur =
     (case ft of
        Add \<Rightarrow> fuseId cur \<notin> set locked
      | Remove \<Rightarrow> cur = target \<and> fuseId cur \<notin> set locked)"

text \<open>
  Modelled from the spec: what a paint writes, the target with \<open>add\<close> and the background
  with \<open>remove\<close>.
\<close>

definition writtenIdent :: "ident \<Rightarrow> fillType \<Rightarrow> ident" where
  "writtenIdent target ft = (case ft of Add \<Rightarrow> target | Remove \<Rightarrow> (0, 0, 0))"

text \<open>
  Modelled from the spec: pixel \<open>idx\<close> is written by a paint whose shape covers the
  pixels \<open>covered\<close> when it is a pixel of the buffer, is covered, and the write rule
  allows it.
\<close>

definition writes :: "(nat \<Rightarrow> bool) \<Rightarrow> ident \<Rightarrow> fillType \<Rightarrow> GraphicMask \<Rightarrow> nat \<Rightarrow> bool" where
  "writes covered target ft g idx =
     (idx < canvas_width g * canvas_height g \<and> 4 * idx + 3 < length (raster g) \<and>
      covered idx \<and> writeRule (lockedInstances g) target ft (decodeAt (raster g) idx))"

text \<open>
  Modelled from the spec: the common part of the two paint operations of the spec's
  Raster Painter. An identity with a component outside a byte is refused with
  \<open>InvalidRange\<close> before anything is written. Every covered pixel is written by the
  rule above (the three identity bytes; the reserved byte stays), and the target's
  fused id joins the known ids when at least one pixel was written.
\<close>

definition paint :: "(nat \<Rightarrow> bool) \<Rightarrow> ident \<Rightarrow> fillType \<Rightarrow> GraphicMask \<Rightarrow> error + GraphicMask" where
  "paint covered target ft g =
     (if \<not> validIdent target then Inl InvalidRange
      else Inr (g\<lparr>
        raster := map (\<lambda>k. if k mod 4 < 3 \<and> writes covered target ft g (k div 4)
                            then encodeByte (writtenIdent target ft) (k mod 4)
                            else raster g ! k) [0..<length (raster g)],
        fusedIds := (if list_ex (writes covered target ft g) [0..<canvas_width g * canvas_height g]
                     then set_add (fuseId target) (fusedIds g) else fusedIds g)\<rparr>))"

text \<open>
  Modelled from the spec: the even-odd rule of the spec's scanline fill, on the lattice
  point of a pixel. An edge counts when it crosses the horizontal ray from the point to
  the right; the comparison is the division-free form of
  \<open>x < (xj - xi) * (y - yi) / (yj - yi) + xi\<close>. With it the square
  \<open>(1,1), (3,1), (3,3), (1,3)\<close> covers the 2 x 2 pixels of the spec's scenario.
\<close>

definition crosses :: "point \<Rightarrow> point \<times> point \<Rightarrow> bool" where
  "crosses p e = (case p of (x, y) \<Rightarrow> case e of ((xi, yi), (xj, yj)) \<Rightarrow>
     ((yi > y) \<noteq> (yj > y)) \<and>
     (if yj > yi then (x - xi) * (yj - yi) < (xj - xi) * (y - yi)
      else (x - xi) * (yj - yi) > (xj - xi) * (y - yi)))"

text \<open>Modelled from the spec: the edges of the closed polygon, the last vertex joined to the first.\<close>

definition edges :: "point list \<Rightarrow> (point \<times> point) list" where
  "edges vs = (case vs of [] \<Rightarrow> [] | v # rest \<Rightarrow> zip vs (rest @ [v]))"

text \<open>Modelled from the spec: a point is inside when it crosses an odd number of edges.\<close>

definition isInside :: "point list \<Rightarrow> point \<Rightarrow> bool" where
  "isInside vs p = odd (length (filter (crosses p) (edges vs)))"

text \<open>Modelled from the spec: the bounding box of a non-empty vertex list.\<close>

definition polygonBox :: "point list \<Rightarrow> extrema" where
  "polygonBox vs =
     (fold min (map fst vs) (fst (hd vs)), fold min (map snd vs) (snd (hd vs)),
      fold max (map fst vs) (fst (hd vs)), fold max (map snd vs) (snd (hd vs)))"

text \<open>
  Modelled from the spec: the pixels covered by a polygon on a buffer \<open>w\<close> pixels wide,
  those of its bounding box whose lattice point is inside.
\<close>

definition coveredByPolygon :: "point list \<Rightarrow> nat \<Rightarrow> nat \<Rightarrow> bool" where
  "coveredByPolygon vs w idx =
     (case polygonBox vs of (xMin, yMin, xMax, yMax) \<Rightarrow>
        let x = int (idx mod w); y = int (idx div w)
        in xMin \<le> x \<and> x \<le> xMax \<and> yMin \<le> y \<and> y \<le> yMax \<and> isInside vs (x, y))"

text \<open>
  Modelled from the spec: \<open>GraphicMask.updateByPolygon\<close> is not among the sources. It
  is the spec's \<open>paintPolygon\<close>: an even-odd fill of the polygon over its bounding box
  only, with the write rule of the painter; a polygon of fewer than three vertices is a
  no-op.
\<close>

definition updateByPolygon :: "point list \<Rightarrow> ident \<Rightarrow> fillType \<Rightarrow> GraphicMask \<Rightarrow> error + GraphicMask" where
  "updateByPolygon vs target ft g =
     (if length vs < 3 then Inr g
      else paint (coveredByPolygon vs (canvas_width g)) target ft g)"

text \<open>
  Modelled from the spec: the pixels covered by a stamp. A cell \<open>(i, j)\<close> of the box \<open>[xMin, yMin, xMax, yMax]\<close> lies at index
  \<open>i + (xMax - xMin) * j\<close> of the row-major matrix and maps to pixel
  \<open>(xMin + i, yMin + j)\<close>.
\<close>

definition coveredByStamp :: "bool list \<Rightarrow> extrema \<Rightarrow> nat \<Rightarrow> nat \<Rightarrow> bool" where
  "coveredByStamp stamp box w idx =
     (case box of (xMin, yMin, xMax, yMax) \<Rightarrow>
        let i = int (idx mod w) - xMin; j = int (idx div w) - yMin
        in 0 \<le> i \<and> i < xMax - xMin \<and> 0 \<le> j \<and> j < yMax - yMin \<and>
           nat (i + (xMax - xMin) * j) < length stamp \<and> stamp ! nat (i + (xMax - xMin) * j))"

text \<open>
  Modelled from the spec: \<open>GraphicMask.updateByMaskInRoi\<close> is not among the sources.
  It is the spec's \<open>paintStampInBox\<close>: every set cell of the stamp that falls on a
  pixel of the buffer is written by the write rule of the painter.
\<close>

definition updateByMaskInRoi :: "bool list \<Rightarrow> extrema \<Rightarrow> ident \<Rightarrow> fillType \<Rightarrow> GraphicMask \<Rightarrow> error + GraphicMask" where
  "updateByMaskInRoi stamp box target ft g =
     paint (coveredByStamp stamp box (canvas_width g)) target ft g"


section \<open>The segmentation element (pxn-segmentation)\<close>

text \<open>
  What a method does beyond the fields below is recorded as a list of effects:
  activating or deactivating the controller of a mode, and dispatching the
  \<open>mode\<close> event with its detail.
\<close>

datatype effect = Deactivate string | Activate string | DispatchMode string

text \<open>
  The fields of \<open>Segmentation\<close> that its methods read and write. \<open>selectedId\<close> is
  \<open>_selectedId.value\<close> (\<open>None\<close> is \<open>null\<close>) and \<open>targetClass\<close> is
  \<open>_targetClass.value\<close>; the controllers are built from \<open>{...this}\<close> and share these
  two boxes and \<open>gmask\<close> with the element. \<open>modes\<close> lists the keys of the \<open>modes\<close>
  dictionary that hold a controller; \<open>imageWidth\<close> and \<open>imageHeight\<close> are the
  renderer's.
\<close>

record Segmentation =
  gmask :: GraphicMask
  selectedId :: "ident option"
  targetClass :: int
  mode :: string
  modes :: "string list"
  newMaskLoaded :: bool
  imageWidth :: nat
  imageHeight :: nat
  effects :: "effect list"



definition setEmpty :: "Segmentation \<Rightarrow> Segmentation" where
  "setEmpty s =
     (if imageWidth s = 0 \<or> imageHeight s = 0 then s
      else s\<lparr>gmask := empty_mask (imageWidth s) (imageHeight s) (gmask s),
             selectedId := Some (-1, -1, -1)\<rparr>)"

definition setMode :: "string \<Rightarrow> string \<Rightarrow> Segmentation \<Rightarrow> Segmentation" where
  "setMode prevMode newMode s =
     (if prevMode = newMode then s
      else
        let s1 = (if prevMode \<in> set (modes s)
                  then s\<lparr>effects := effects s @ [Deactivate prevMode]\<rparr> else s);
            s2 = (if newMode \<in> set (modes s1)
                  then s1\<lparr>effects := effects s1 @ [Activate newMode]\<rparr> else s1);
            s3 = s2\<lparr>mode := newMode\<rparr>
        in s3\<lparr>effects := effects s3 @ [DispatchMode (mode s3)]\<rparr>)"



text \<open>
  \<open>filterId\<close> touches the element through \<open>this.gmask\<close> only, so it is a function of
  the mask. The three members of the mask it calls are parameters: \<open>getBlobs\<close> (the
  values of the returned map, in iteration order, with their keys), \<open>canvas.width\<close>
  and \<open>updateByPolygon\<close>. A call that throws ends the loop. \<open>filterContour\<close> is
  the callback of \<open>blob.contours.forEach\<close>.
\<close>

fun forEachM :: "('a \<Rightarrow> 'g \<Rightarrow> error + 'g) \<Rightarrow> 'a list \<Rightarrow> 'g \<Rightarrow> error + 'g" where
  "forEachM f [] g = Inr g"
| "forEachM f (x # xs) g = (case f x g of Inl e \<Rightarrow> Inl e | Inr g' \<Rightarrow> forEachM f xs g')"

definition filterContour ::
  "('g \<Rightarrow> nat) \<Rightarrow> (point list \<Rightarrow> ident \<Rightarrow> fillType \<Rightarrow> 'g \<Rightarrow> error + 'g) \<Rightarrow> ident \<Rightarrow>
   Contour \<Rightarrow> 'g \<Rightarrow> error + 'g" where
  "filterContour width upd targetId contour g =
     (let arr = convertIndexToDict (points contour) (width g + 1)
      in if ctype contour = ''external'' then upd arr targetId Remove g
         else upd arr targetId Add g)"

definition filterId ::
  "('g \<Rightarrow> ident \<Rightarrow> extrema option \<Rightarrow> error + (nat \<times> Blob) list) \<Rightarrow> ('g \<Rightarrow> nat) \<Rightarrow>
   (point list \<Rightarrow> ident \<Rightarrow> fillType \<Rightarrow> 'g \<Rightarrow> error + 'g) \<Rightarrow>
   ident \<Rightarrow> nat \<Rightarrow> 'g \<Rightarrow> error + 'g" where
  "filterId getBlobs width upd targetId blobMinSize g =
     (case getBlobs g targetId None of
        Inl e \<Rightarrow> Inl e
      | Inr blobs \<Rightarrow>
          forEachM (\<lambda>(key, blob) g'.
                      if nbPixels blob < blobMinSize
                      then forEachM (filterContour width upd targetId) (contours blob) g'
                      else Inr g')
                   blobs g)"

section \<open>The controllers (controller-mask)\<close>

text \<open>
  \<open>getPolygons\<close>, with \<open>mask.getBlobs\<close> and \<open>mask.canvas.width\<close> as parameters.
  A \<open>getBlobs\<close> that throws makes \<open>getPolygons\<close> throw.
\<close>

definition getPolygons ::
  "('g \<Rightarrow> ident \<Rightarrow> extrema option \<Rightarrow> error + (nat \<times> Blob) list) \<Rightarrow> ('g \<Rightarrow> nat) \<Rightarrow>
   'g \<Rightarrow> ident \<Rightarrow> extrema option \<Rightarrow> error + DensePolygon list" where
  "getPolygons getBlobs width gm targetId ext =
     (if arraysMatch targetId (0, 0, 0) then Inr []
      else
        (case getBlobs gm targetId ext of
           Inl e \<Rightarrow> Inl e
         | Inr blobs \<Rightarrow>
             Inr (concat (map (\<lambda>(key, blob).
                    map (\<lambda>contour.
                           \<lparr>ptype = ctype contour,
                            pdata = convertIndexToDict (points contour) (width gm + 1)\<rparr>)
                        (contours blob)) blobs))))"

subsection \<open>LockController\<close>

text \<open>
  The two loops of the class branch of \<open>onPointerDownLock\<close>: each walks the known
  fused ids and adds to, or deletes from, the locked ids those of the class.
\<close>

definition unlockAllOfClass :: "int \<Rightarrow> GraphicMask \<Rightarrow> GraphicMask" where
  "unlockAllOfClass cls g =
     g\<lparr>lockedInstances :=
         fold (\<lambda>fId locked. if classOf (unfuseId fId) = cls then set_delete fId locked else locked)
              (fusedIds g) (lockedInstances g)\<rparr>"

definition lockAllOfClass :: "int \<Rightarrow> GraphicMask \<Rightarrow> GraphicMask" where
  "lockAllOfClass cls g =
     g\<lparr>lockedInstances :=
         fold (\<lambda>fId locked. if classOf (unfuseId fId) = cls then set_add fId locked else locked)
              (fusedIds g) (lockedInstances g)\<rparr>"

text \<open>
  \<open>onPointerDownLock\<close>, given the identity \<open>id\<close> of the pixel under the pointer
  (\<open>gmask.pixelId(x + y * width)\<close>). The closing \<open>recomputeColor\<close> redraws the display
  and leaves the identity data as they are.
\<close>

definition onPointerDownLock :: "LockType \<Rightarrow> ident \<Rightarrow> GraphicMask \<Rightarrow> GraphicMask" where
  "onPointerDownLock lockType pid g =
     (case lockType of
        LockInstance \<Rightarrow>
          (let fId = fuseId pid
           in if fId \<in> set (lockedInstances g)
              then g\<lparr>lockedInstances := set_delete fId (lockedInstances g)\<rparr>
              else g\<lparr>lockedInstances := set_add fId (lockedInstances g)\<rparr>)
      | LockClass \<Rightarrow>
          (let cls = classOf pid;
               currentLockedClasses = map (\<lambda>i. classOf (unfuseId i)) (lockedInstances g)
           in if cls \<in> set currentLockedClasses then unlockAllOfClass cls g
              else lockAllOfClass cls g))"

subsection \<open>CreatePolygonController and CreateBrushController\<close>

text \<open>
  \<open>getTargetValue\<close> has the same body in both controllers. It reads the edition mode
  of its controller and the shared boxes, and in the new-instance mode it stores the
  value it returns as the selection.
\<close>

definition getTargetValue ::
  "(GraphicMask \<Rightarrow> int \<times> int) \<Rightarrow> EditionMode \<Rightarrow> Segmentation \<Rightarrow> ident \<times> Segmentation" where
  "getTargetValue getNextId editionMode s =
     (if editionMode = NEW_INSTANCE then
        (let cls = clsMap (gmask s) (targetClass s);
             newId = (case cls of
                        Some (r, g, b, isInstance) \<Rightarrow>
                          if isInstance \<noteq> 0 then getNextId (gmask s) else (0, 0)
                      | None \<Rightarrow> (0, 0));
             value = (fst newId, snd newId, targetClass s)
         in (value, s\<lparr>selectedId := Some value\<rparr>))
      else if (editionMode = ADD_TO_INSTANCE \<or> editionMode = REMOVE_FROM_INSTANCE)
              \<and> selectedId s \<noteq> None then (the (selectedId s), s)
      else ((0, 0, 0), s))"

text \<open>
  The polygon controller: its edition mode and the temporary polygon, whose nodes are
  held here as the pixel coordinates that the handler computes from them (the last node
  follows the pointer and is popped first).
\<close>

record PolygonController =
  editionMode :: EditionMode
  tempPolygon :: "point list option"

text \<open>
  \<open>onKeyDown\<close> of the polygon controller. The contour display, the roi and the
  \<open>update\<close> event are not part of the state.
\<close>

definition onKeyDown ::
  "(GraphicMask \<Rightarrow> int \<times> int) \<Rightarrow> string \<Rightarrow> PolygonController \<times> Segmentation \<Rightarrow>
   error option \<times> PolygonController \<times> Segmentation" where
  "onKeyDown getNextId key cs =
     (case cs of (c, s) \<Rightarrow>
      if key = ''Enter'' then
        (case tempPolygon c of
           None \<Rightarrow> (None, c, s)
         | Some nodes \<Rightarrow>
             (let vertices = butlast nodes;
                  c' = c\<lparr>tempPolygon := None\<rparr>
              in if length vertices > 2 then
                   (let fillType = (if editionMode c = REMOVE_FROM_INSTANCE then Remove else Add);
                        (newValue, s1) = getTargetValue getNextId (editionMode c) s;
                        s2 = s1\<lparr>gmask := (gmask s1)\<lparr>fusedIds :=
                                  set_add (fuseId newValue) (fusedIds (gmask s1))\<rparr>\<rparr>
                    in case updateByPolygon vertices newValue fillType (gmask s2) of
                         Inl e \<Rightarrow> (Some e, c', s2)
                       | Inr g \<Rightarrow> (None, c', s2\<lparr>gmask := g\<rparr>))
                 else (None, c', s)))
      else if key = ''Escape'' then
        (case tempPolygon c of
           None \<Rightarrow> (None, c, s)
         | Some nodes \<Rightarrow> (None, c\<lparr>tempPolygon := None\<rparr>, s))
      else (None, c, s))"

text \<open>
  \<open>onPointerUpBrush\<close> of the brush controller, on its \<open>isActive\<close> flag and the shared
  state. \<open>fuseId(this._selectedId.value!)\<close> throws a TypeError on \<open>null\<close>, before the
  flag is lowered. The contour display that precedes it is not part of the state.
\<close>

definition onPointerUpBrush :: "bool \<times> Segmentation \<Rightarrow> error option \<times> bool \<times> Segmentation" where
  "onPointerUpBrush cs =
     (case cs of (isActive, s) \<Rightarrow>
      if isActive then
        (case selectedId s of
           None \<Rightarrow> (Some TypeError, isActive, s)
         | Some sel \<Rightarrow>
             (None, False, s\<lparr>gmask := (gmask s)\<lparr>fusedIds :=
                                 set_add (fuseId sel) (fusedIds (gmask s))\<rparr>\<rparr>))
      else (None, False, s))"

section \<open>Example states\<close>

definition exampleClsMap :: "int \<rightharpoonup> (int \<times> int \<times> int \<times> int)" where
  "exampleClsMap = [1 \<mapsto> (255, 0, 0, 0), 2 \<mapsto> (0, 255, 0, 1)]"

text \<open>A 2 x 2 mask: one pixel of the semantic class 1, one of instance 3 of class 2.\<close>

definition exampleMask :: GraphicMask where
  "exampleMask =
     \<lparr>canvas_width = 2, canvas_height = 2,
      raster = [0, 0, 1, 255,  3, 0, 2, 255,  0, 0, 0, 0,  0, 0, 0, 0],
      clsMap = exampleClsMap, fusedIds = [65536, 131075], lockedInstances = []\<rparr>"

definition exampleSeg :: Segmentation where
  "exampleSeg =
     \<lparr>gmask = exampleMask, selectedId = Some (3, 0, 2), targetClass = 1,
      mode = ''select'',
      modes = [''create'', ''create-brush'', ''select'', ''edit-add'', ''edit-remove'', ''lock''],
      newMaskLoaded = False, imageWidth = 2, imageHeight = 2, effects = []\<rparr>"

text \<open>
  A 4 x 4 mask: pixel (1,1) holds instance 1 of class 5, which is locked; pixel (2,2)
  holds instance 2 of class 5, which is not.
\<close>

definition lockedMask :: GraphicMask where
  "lockedMask =
     \<lparr>canvas_width = 4, canvas_height = 4,
      raster = [0, 0, 0, 0,  0, 0, 0, 0,  0, 0, 0, 0,    0, 0, 0, 0,
                0, 0, 0, 0,  1, 0, 5, 255,  0, 0, 0, 0,  0, 0, 0, 0,
                0, 0, 0, 0,  0, 0, 0, 0,  2, 0, 5, 255,  0, 0, 0, 0,
                0, 0, 0, 0,  0, 0, 0, 0,  0, 0, 0, 0,    0, 0, 0, 0],
      clsMap = exampleClsMap, fusedIds = [327681, 327682], lockedInstances = [327681]\<rparr>"

definition squarePolygon :: "point list" where
  "squarePolygon = [(1, 1), (3, 1), (3, 3), (1, 3)]"

text \<open>
  An empty 4 x 4 mask with a selection, and a polygon controller in the remove mode whose
  temporary polygon is the square (with the node that follows the pointer).
\<close>

definition emptySeg :: Segmentation where
  "emptySeg =
     \<lparr>gmask = \<lparr>canvas_width = 4, canvas_height = 4, raster = replicate 64 0,
                clsMap = exampleClsMap, fusedIds = [], lockedInstances = []\<rparr>,
      selectedId = Some (3, 0, 2), targetClass = 2, mode = ''edit-remove'',
      modes = [''create'', ''create-brush'', ''select'', ''edit-add'', ''edit-remove'', ''lock''],
      newMaskLoaded = False, imageWidth = 4, imageHeight = 4, effects = []\<rparr>"

definition removeController :: PolygonController where
  "removeController =
     \<lparr>editionMode = REMOVE_FROM_INSTANCE, tempPolygon = Some (squarePolygon @ [(1, 3)])\<rparr>"


text \<open>
  A blob of 8 pixels on a 3 x 3 mask, the ring around the centre pixel, as corner indices
  on the 4-wide corner grid: the outer square first, then the hole.
\<close>

definition ringBlob :: Blob where
  "ringBlob =
     \<lparr>contours = [\<lparr>points = [0, 3, 15, 12], ctype = ''external''\<rparr>,
                  \<lparr>points = [5, 6, 10, 9], ctype = ''internal''\<rparr>],
      nbPixels = 8\<rparr>"

text \<open>
  A 10 x 7 mask with two blobs of instance 1 of class 5: three pixels at the left of
  row 0, and the fifty pixels of rows 2 to 6. The two blobs as an extractor reports
  them, each with its outer contour on the 11-wide corner grid.
\<close>

definition blobMask :: GraphicMask where
  "blobMask =
     \<lparr>canvas_width = 10, canvas_height = 7,
      raster = concat (replicate 3 [1, 0, 5, 255]) @ replicate 68 0 @
               concat (replicate 50 [1, 0, 5, 255]),
      clsMap = exampleClsMap, fusedIds = [327681], lockedInstances = []\<rparr>"

definition smallBlob :: Blob where
  "smallBlob = \<lparr>contours = [\<lparr>points = [0, 3, 14, 11], ctype = ''external''\<rparr>], nbPixels = 3\<rparr>"

definition largeBlob :: Blob where
  "largeBlob = \<lparr>contours = [\<lparr>points = [22, 32, 87, 77], ctype = ''external''\<rparr>], nbPixels = 50\<rparr>"

definition twoBlobs :: "GraphicMask \<Rightarrow> ident \<Rightarrow> extrema option \<Rightarrow> error + (nat \<times> Blob) list" where
  "twoBlobs g targetId ext = Inr [(1, smallBlob), (2, largeBlob)]"

text \<open>
  A 3 x 3 mask: the ring of \<open>ringBlob\<close> around one pixel of another identity.
\<close>

definition ringMask :: GraphicMask where
  "ringMask =
     \<lparr>canvas_width = 3, canvas_height = 3,
      raster = [1, 0, 5, 255,  1, 0, 5, 255,  1, 0, 5, 255,
                1, 0, 5, 255,  2, 0, 6, 255,  1, 0, 5, 255,
                1, 0, 5, 255,  1, 0, 5, 255,  1, 0, 5, 255],
      clsMap = exampleClsMap, fusedIds = [327681, 393218], lockedInstances = []\<rparr>"

section \<open>Sets as lists\<close>

lemma set_set_add: "set (set_add x xs) = insert x (set xs)"
  by (auto simp: set_add_def)






section \<open>Locking a class\<close>





text \<open>
  The handler picks one of the two loops: it unlocks when some locked id is of the
  class of the clicked pixel and locks otherwise.
\<close>

lemma onPointerDownLock_class:
  "onPointerDownLock LockClass pid g =
     (if \<exists>k \<in> set (lockedInstances g). classOf (unfuseId k) = classOf pid
      then unlockAllOfClass (classOf pid) g else lockAllOfClass (classOf pid) g)"
  by (auto simp: onPointerDownLock_def Let_def image_iff)


section \<open>Switching the mode\<close>

text \<open>
  C9: \<open>setMode\<close> called with the previous mode equal to the new one does nothing: no
  controller is deactivated or activated, the mode stays and no event is dispatched.
\<close>

theorem setMode_same_mode_noop: "setMode m m s = s"
  by (simp add: setMode_def)

text \<open>With two different modes, both of which have a controller, all four steps happen.\<close>

lemma setMode_switch:
  "prevMode \<noteq> newMode \<Longrightarrow> prevMode \<in> set (modes s) \<Longrightarrow> newMode \<in> set (modes s) \<Longrightarrow>
   setMode prevMode newMode s =
     s\<lparr>mode := newMode,
       effects := effects s @ [Deactivate prevMode, Activate newMode, DispatchMode newMode]\<rparr>"
  by (simp add: setMode_def Let_def)

section \<open>Contours of the background\<close>

text \<open>
  C7: asking for the contours of the background identity \<open>(0,0,0)\<close> returns the empty
  list for every mask and every optional box, whatever \<open>getBlobs\<close> would do: the mask
  is not scanned.
\<close>

theorem getPolygons_background: "getPolygons getBlobs width gm (0, 0, 0) ext = Inr []"
  by (simp add: getPolygons_def arraysMatch_def)

section \<open>Pixels as bytes\<close>

lemma uint_encode: "0 \<le> c \<Longrightarrow> c \<le> 255 \<Longrightarrow> uint (word_of_int c :: byte) = c"
  by (simp add: uint_word_of_int_eq take_bit_int_eq_self)

lemma decode_encode:
  "validIdent i \<Longrightarrow> (uint (encodeByte i 0), uint (encodeByte i 1), uint (encodeByte i 2)) = i"
  by (cases i) (simp add: validIdent_def encodeByte_def uint_encode)

text \<open>
  Both the painter and \<open>replaceValue\<close> rewrite the raster byte by byte: the three
  identity bytes of the pixels chosen by \<open>W\<close> are replaced.
\<close>

lemma rewritten_nth:
  assumes "4 * idx + j < length r" and "j < 4"
  shows "map (\<lambda>k. if k mod 4 < 3 \<and> W (k div 4) then encodeByte new (k mod 4) else r ! k)
            [0..<length r] ! (4 * idx + j) =
         (if j < 3 \<and> W idx then encodeByte new j else r ! (4 * idx + j))"
proof -
  have "(4 * idx + j) div 4 = idx" and "(4 * idx + j) mod 4 = j"
    using assms(2) by simp_all
  then show ?thesis
    using assms(1) by (simp del: upt_Suc)
qed

lemma decodeAt_rewrite:
  assumes "4 * idx + 3 < length r" and "validIdent new"
  shows "decodeAt (map (\<lambda>k. if k mod 4 < 3 \<and> W (k div 4) then encodeByte new (k mod 4) else r ! k)
            [0..<length r]) idx = (if W idx then new else decodeAt r idx)"
proof -
  let ?r = "map (\<lambda>k. if k mod 4 < 3 \<and> W (k div 4) then encodeByte new (k mod 4) else r ! k)
            [0..<length r]"
  have n0: "?r ! (4 * idx) = (if W idx then encodeByte new 0 else r ! (4 * idx))"
    using rewritten_nth [of idx 0 r W new] assms(1) by simp
  have n1: "?r ! (4 * idx + 1) = (if W idx then encodeByte new 1 else r ! (4 * idx + 1))"
    using rewritten_nth [of idx 1 r W new] assms(1) by simp
  have n2: "?r ! (4 * idx + 2) = (if W idx then encodeByte new 2 else r ! (4 * idx + 2))"
    using rewritten_nth [of idx 2 r W new] assms(1) by simp
  show ?thesis
    unfolding decodeAt_def n0 n1 n2
    using decode_encode [OF assms(2)] by simp
qed

lemma decodeAt_valid: "validIdent (decodeAt r idx)"
proof -
  have "uint x \<le> 255" for x :: byte
    using uint_lt2p [of x] by simp
  then show ?thesis
    by (simp add: decodeAt_def validIdent_def)
qed

lemma all_below_list: "(\<forall>i<n. P i) = list_all P [0..<n]"
  by (auto simp: list_all_iff)

lemma pixelId_not_sentinel: "pixelId g idx \<noteq> Inr (-1, -1, -1)"
proof -
  have "0 \<le> uint (raster g ! (4 * idx))" by simp
  then have "uint (raster g ! (4 * idx)) \<noteq> -1" by linarith
  then show ?thesis
    by (simp add: pixelId_def decodeAt_def)
qed

section \<open>Emptying the mask\<close>

text \<open>
  C10: \<open>setEmpty\<close> does nothing when the image width or height is 0. Otherwise it
  empties the mask to the image dimensions (a zero-filled raster of that size) and sets
  the selection to \<open>[-1,-1,-1]\<close>, which is not a byte triple and is the identity of no
  pixel of any mask.
\<close>

theorem setEmpty_guard_and_sentinel:
  "(imageWidth s = 0 \<or> imageHeight s = 0 \<longrightarrow> setEmpty s = s) \<and>
   (imageWidth s \<noteq> 0 \<and> imageHeight s \<noteq> 0 \<longrightarrow>
      gmask (setEmpty s) = empty_mask (imageWidth s) (imageHeight s) (gmask s) \<and>
      canvas_width (gmask (setEmpty s)) = imageWidth s \<and>
      canvas_height (gmask (setEmpty s)) = imageHeight s \<and>
      raster (gmask (setEmpty s)) = replicate (imageWidth s * imageHeight s * 4) 0 \<and>
      selectedId (setEmpty s) = Some (-1, -1, -1)) \<and>
   \<not> validIdent (-1, -1, -1) \<and>
   (\<forall>g idx. pixelId g idx \<noteq> Inr (-1, -1, -1))"
  by (simp add: setEmpty_def empty_mask_def validIdent_def pixelId_not_sentinel)

theorem setEmpty_guard_and_sentinel_witness:
  "setEmpty (exampleSeg\<lparr>imageWidth := 0\<rparr>) = exampleSeg\<lparr>imageWidth := 0\<rparr> \<and>
   raster (gmask (setEmpty exampleSeg)) = replicate 16 0 \<and>
   canvas_width (gmask (setEmpty exampleSeg)) = 2 \<and>
   selectedId (setEmpty exampleSeg) = Some (-1, -1, -1) \<and>
   pixelId (gmask (setEmpty exampleSeg)) 3 = Inr (0, 0, 0)"
proof -
  have w: "imageWidth exampleSeg = 2" and h: "imageHeight exampleSeg = 2"
    by (simp_all add: exampleSeg_def)
  have z: "imageWidth (exampleSeg\<lparr>imageWidth := 0\<rparr>) = 0"
    by simp
  have p: "pixelId (gmask (setEmpty exampleSeg)) 3 = Inr (0, 0, 0)"
    by (simp add: setEmpty_def w h empty_mask_def pixelId_def decodeAt_def)
  show ?thesis
    using setEmpty_guard_and_sentinel [of "exampleSeg\<lparr>imageWidth := 0\<rparr>"]
      setEmpty_guard_and_sentinel [of exampleSeg] w h z p
    by (simp add: empty_mask_def)
qed

section \<open>Classes that are not instantiable\<close>




section \<open>The painter and the locks\<close>

lemma paint_Inr:
  "paint covered target ft g = Inr g' \<Longrightarrow>
   validIdent target \<and>
   raster g' = map (\<lambda>k. if k mod 4 < 3 \<and> writes covered target ft g (k div 4)
                            then encodeByte (writtenIdent target ft) (k mod 4)
                            else raster g ! k) [0..<length (raster g)] \<and>
   lockedInstances g' = lockedInstances g \<and> canvas_width g' = canvas_width g \<and>
   canvas_height g' = canvas_height g \<and> clsMap g' = clsMap g \<and>
   set (fusedIds g) \<subseteq> set (fusedIds g')"
  by (auto simp: paint_def set_set_add split: if_splits)

lemma validIdent_written: "validIdent target \<Longrightarrow> validIdent (writtenIdent target ft)"
  by (cases ft) (simp_all add: writtenIdent_def validIdent_def)

lemma paint_pixel:
  assumes "paint covered target ft g = Inr g'" and "4 * idx + 3 < length (raster g)"
  shows "decodeAt (raster g') idx =
           (if writes covered target ft g idx then writtenIdent target ft
            else decodeAt (raster g) idx)"
    and "raster g' ! (4 * idx + 3) = raster g ! (4 * idx + 3)"
    and "length (raster g') = length (raster g)"
proof -
  note p = paint_Inr [OF assms(1)]
  show "decodeAt (raster g') idx =
           (if writes covered target ft g idx then writtenIdent target ft
            else decodeAt (raster g) idx)"
    using decodeAt_rewrite [where idx = idx and r = "raster g"
        and new = "writtenIdent target ft" and W = "writes covered target ft g"]
      assms(2) validIdent_written [of target ft] p
    by simp
  show "raster g' ! (4 * idx + 3) = raster g ! (4 * idx + 3)"
    using rewritten_nth [of idx 3 "raster g" "writes covered target ft g"
        "writtenIdent target ft"] assms(2) p
    by simp
  show "length (raster g') = length (raster g)"
    using p by simp
qed

lemma paint_raster_fields:
  assumes "paint covered target ft g = Inr g'" and "raster g = r" and "lockedInstances g = l"
    and "canvas_width g * canvas_height g = n"
  shows "raster g' =
     map (\<lambda>k. if k mod 4 < 3 \<and>
                  (k div 4 < n \<and> 4 * (k div 4) + 3 < length r \<and> covered (k div 4) \<and>
                   writeRule l target ft (decodeAt r (k div 4)))
               then encodeByte (writtenIdent target ft) (k mod 4) else r ! k) [0..<length r]"
  using paint_Inr [OF assms(1)] assms(2-) by (simp add: writes_def)

lemma locked_not_written:
  "fuseId (decodeAt (raster g) idx) \<in> set (lockedInstances g) \<Longrightarrow>
   \<not> writes covered target ft g idx"
  by (cases ft) (simp_all add: writes_def writeRule_def)

lemma paint_keeps_locked:
  assumes "paint covered target ft g = Inr g'" and "pixelId g idx = Inr cur"
    and "fuseId cur \<in> set (lockedInstances g)"
  shows "pixelId g' idx = Inr cur \<and> raster g' ! (4 * idx + 3) = raster g ! (4 * idx + 3)"
proof -
  have r: "4 * idx + 3 < length (raster g)" and c: "decodeAt (raster g) idx = cur"
    using assms(2) by (auto simp: pixelId_def split: if_splits)
  have "\<not> writes covered target ft g idx"
    using locked_not_written assms(3) c by simp
  then show ?thesis
    using paint_pixel [OF assms(1) r] r c by (simp add: pixelId_def)
qed

text \<open>
  C2: a pixel whose current identity is locked is left as it is by every paint, polygon
  or stamp, with any target identity and either fill mode: its identity and its
  reserved byte are unchanged, and the locked ids stay the same.
\<close>

theorem locked_pixels_unchanged_by_paint:
  assumes "pixelId g idx = Inr cur" and "fuseId cur \<in> set (lockedInstances g)"
  shows "(\<forall>g'. updateByPolygon vs target ft g = Inr g' \<longrightarrow>
            pixelId g' idx = Inr cur \<and> raster g' ! (4 * idx + 3) = raster g ! (4 * idx + 3) \<and>
            lockedInstances g' = lockedInstances g) \<and>
         (\<forall>g'. updateByMaskInRoi stamp box target ft g = Inr g' \<longrightarrow>
            pixelId g' idx = Inr cur \<and> raster g' ! (4 * idx + 3) = raster g ! (4 * idx + 3) \<and>
            lockedInstances g' = lockedInstances g)"
proof (intro conjI allI impI)
  fix g'
  assume run: "updateByPolygon vs target ft g = Inr g'"
  show "pixelId g' idx = Inr cur"
    and "raster g' ! (4 * idx + 3) = raster g ! (4 * idx + 3)"
    and "lockedInstances g' = lockedInstances g"
  proof -
    have "g' = g \<or> paint (coveredByPolygon vs (canvas_width g)) target ft g = Inr g'"
      using run by (auto simp: updateByPolygon_def split: if_splits)
    then have "pixelId g' idx = Inr cur \<and>
        raster g' ! (4 * idx + 3) = raster g ! (4 * idx + 3) \<and>
        lockedInstances g' = lockedInstances g"
      using paint_keeps_locked [OF _ assms] paint_Inr assms(1) by blast
    then show "pixelId g' idx = Inr cur"
      and "raster g' ! (4 * idx + 3) = raster g ! (4 * idx + 3)"
      and "lockedInstances g' = lockedInstances g"
      by simp_all
  qed
next
  fix g'
  assume run: "updateByMaskInRoi stamp box target ft g = Inr g'"
  then have p: "paint (coveredByStamp stamp box (canvas_width g)) target ft g = Inr g'"
    by (simp add: updateByMaskInRoi_def)
  show "pixelId g' idx = Inr cur"
    and "raster g' ! (4 * idx + 3) = raster g ! (4 * idx + 3)"
    using paint_keeps_locked [OF p assms] by simp_all
  show "lockedInstances g' = lockedInstances g"
    using paint_Inr [OF p] by simp
qed

theorem locked_pixels_unchanged_by_paint_witness:
  "pixelId lockedMask 5 = Inr (1, 0, 5) \<and> fuseId (1, 0, 5) \<in> set (lockedInstances lockedMask) \<and>
   (\<exists>g'. updateByPolygon squarePolygon (9, 0, 7) Add lockedMask = Inr g' \<and>
      pixelId g' 5 = Inr (1, 0, 5) \<and> pixelId g' 10 = Inr (9, 0, 7)) \<and>
   (\<exists>g'. updateByMaskInRoi [True, True, True, True] (1, 1, 3, 3) (1, 0, 5) Remove lockedMask = Inr g' \<and>
      pixelId g' 5 = Inr (1, 0, 5))"
proof -
  have px: "pixelId lockedMask 5 = Inr (1, 0, 5)"
    by code_simp
  have lk: "fuseId (1, 0, 5) \<in> set (lockedInstances lockedMask)"
    by code_simp
  have other: "map_sum id (\<lambda>g'. pixelId g' 10)
      (updateByPolygon squarePolygon (9, 0, 7) Add lockedMask) = Inr (Inr (9, 0, 7))"
    by code_simp
  obtain g1 where g1: "updateByPolygon squarePolygon (9, 0, 7) Add lockedMask = Inr g1"
    using other by (cases "updateByPolygon squarePolygon (9, 0, 7) Add lockedMask") auto
  have stamp: "isl (updateByMaskInRoi [True, True, True, True] (1, 1, 3, 3) (1, 0, 5) Remove
      lockedMask) = False"
    by code_simp
  obtain g2 where g2: "updateByMaskInRoi [True, True, True, True] (1, 1, 3, 3) (1, 0, 5) Remove
      lockedMask = Inr g2"
    using stamp
    by (cases "updateByMaskInRoi [True, True, True, True] (1, 1, 3, 3) (1, 0, 5) Remove lockedMask")
      auto
  show ?thesis
    using locked_pixels_unchanged_by_paint [OF px lk, where vs = squarePolygon
        and target = "(9, 0, 7)" and ft = Add]
      locked_pixels_unchanged_by_paint [OF px lk, where stamp = "[True, True, True, True]"
        and box = "(1, 1, 3, 3)" and target = "(1, 0, 5)" and ft = Remove]
      px lk g1 g2 other
    by auto
qed

section \<open>The known ids\<close>

lemma paint_known_ids:
  assumes "paint covered target ft g = Inr g'" and "writes covered target ft g idx"
  shows "fuseId target \<in> set (fusedIds g')"
proof -
  have "idx < canvas_width g * canvas_height g"
    using assms(2) by (simp add: writes_def)
  then have "list_ex (writes covered target ft g) [0..<canvas_width g * canvas_height g]"
    using assms(2) by (auto simp: list_ex_iff)
  then show ?thesis
    using assms(1) by (auto simp: paint_def set_set_add split: if_splits)
qed

lemma updateByPolygon_known:
  "updateByPolygon vs target ft g = Inr g' \<Longrightarrow> set (fusedIds g) \<subseteq> set (fusedIds g')"
  using paint_Inr [of "coveredByPolygon vs (canvas_width g)" target ft g g']
  by (auto simp: updateByPolygon_def split: if_splits)

lemma updateByMaskInRoi_known:
  "updateByMaskInRoi stamp box target ft g = Inr g' \<Longrightarrow> set (fusedIds g) \<subseteq> set (fusedIds g')"
  using paint_Inr [of "coveredByStamp stamp box (canvas_width g)" target ft g g']
  by (auto simp: updateByMaskInRoi_def)

lemma getTargetValue_gmask: "gmask (snd (getTargetValue gn em s)) = gmask s"
  by (simp add: getTargetValue_def Let_def)

lemma onKeyDown_Enter_commit:
  assumes "tempPolygon c = Some nodes" and "2 < length (butlast nodes)"
  shows "fuseId (fst (getTargetValue gn (editionMode c) s))
           \<in> set (fusedIds (gmask (snd (snd (onKeyDown gn ''Enter'' (c, s))))))"
proof -
  obtain v s1 where t: "getTargetValue gn (editionMode c) s = (v, s1)"
    by (cases "getTargetValue gn (editionMode c) s")
  let ?ft = "if editionMode c = REMOVE_FROM_INSTANCE then Remove else Add"
  let ?s2 = "s1\<lparr>gmask := (gmask s1)\<lparr>fusedIds := set_add (fuseId v) (fusedIds (gmask s1))\<rparr>\<rparr>"
  have in2: "fuseId v \<in> set (fusedIds (gmask ?s2))"
    by (simp add: set_set_add)
  show ?thesis
  proof (cases "updateByPolygon (butlast nodes) v ?ft (gmask ?s2)")
    case (Inl e)
    then show ?thesis
      using assms t in2 by (simp add: onKeyDown_def Let_def)
  next
    case (Inr g')
    then have "fuseId v \<in> set (fusedIds g')"
      using updateByPolygon_known [OF Inr] in2 by auto
    then show ?thesis
      using assms t Inr by (simp add: onKeyDown_def Let_def)
  qed
qed

lemma onKeyDown_known:
  "set (fusedIds (gmask s)) \<subseteq> set (fusedIds (gmask (snd (snd (onKeyDown gn key (c, s))))))"
proof -
  obtain v s1 where t: "getTargetValue gn (editionMode c) s = (v, s1)"
    by (cases "getTargetValue gn (editionMode c) s")
  have g1: "gmask s1 = gmask s"
    using getTargetValue_gmask [of gn "editionMode c" s] t by simp
  let ?ft = "if editionMode c = REMOVE_FROM_INSTANCE then Remove else Add"
  let ?s2 = "s1\<lparr>gmask := (gmask s1)\<lparr>fusedIds := set_add (fuseId v) (fusedIds (gmask s1))\<rparr>\<rparr>"
  have in2: "set (fusedIds (gmask s)) \<subseteq> set (fusedIds (gmask ?s2))"
    by (auto simp: set_set_add g1)
  show ?thesis
  proof (cases "tempPolygon c")
    case None
    then show ?thesis by (simp add: onKeyDown_def)
  next
    case (Some nodes)
    show ?thesis
    proof (cases "updateByPolygon (butlast nodes) v ?ft (gmask ?s2)")
      case (Inl e)
      then show ?thesis
        using Some t in2 by (simp add: onKeyDown_def Let_def)
    next
      case (Inr g')
      then have "set (fusedIds (gmask s)) \<subseteq> set (fusedIds g')"
        using updateByPolygon_known [OF Inr] in2 by blast
      then show ?thesis
        using Some t Inr by (simp add: onKeyDown_def Let_def)
    qed
  qed
qed

lemma onPointerUpBrush_known:
  "set (fusedIds (gmask s)) \<subseteq> set (fusedIds (gmask (snd (snd (onPointerUpBrush (a, s))))))"
  by (auto simp: onPointerUpBrush_def set_set_add split: option.splits)

lemma onPointerUpBrush_adds:
  "selectedId s = Some sel \<Longrightarrow>
   fuseId sel \<in> set (fusedIds (gmask (snd (snd (onPointerUpBrush (True, s))))))"
  by (simp add: onPointerUpBrush_def set_set_add)

text \<open>
  C3 (as amended): committing a polygon of three or more vertices puts the fused id of
  the target identity among the known ids, whether or not a pixel is written, and
  releasing an active brush stroke puts the fused id of the selection there. No key
  press, no release and no paint of either fill mode takes an id out of the known ids.
  Of the painter, which is modelled from the spec, the proof uses only that it takes no
  id out.
\<close>

theorem known_ids_added_on_commit_never_removed:
  "(\<forall>nodes. tempPolygon c = Some nodes \<and> 2 < length (butlast nodes) \<longrightarrow>
      fuseId (fst (getTargetValue gn (editionMode c) s))
        \<in> set (fusedIds (gmask (snd (snd (onKeyDown gn ''Enter'' (c, s))))))) \<and>
   (\<forall>sel. selectedId s = Some sel \<longrightarrow>
      fuseId sel \<in> set (fusedIds (gmask (snd (snd (onPointerUpBrush (True, s))))))) \<and>
   set (fusedIds (gmask s)) \<subseteq> set (fusedIds (gmask (snd (snd (onKeyDown gn key (c, s)))))) \<and>
   set (fusedIds (gmask s)) \<subseteq> set (fusedIds (gmask (snd (snd (onPointerUpBrush (a, s)))))) \<and>
   (\<forall>g'. updateByPolygon vs target ft g = Inr g' \<longrightarrow>
      set (fusedIds g) \<subseteq> set (fusedIds g')) \<and>
   (\<forall>g'. updateByMaskInRoi stamp box target ft g = Inr g' \<longrightarrow>
      set (fusedIds g) \<subseteq> set (fusedIds g'))"
proof (intro conjI allI impI)
  fix nodes
  assume "tempPolygon c = Some nodes \<and> 2 < length (butlast nodes)"
  then show "fuseId (fst (getTargetValue gn (editionMode c) s))
        \<in> set (fusedIds (gmask (snd (snd (onKeyDown gn ''Enter'' (c, s))))))"
    using onKeyDown_Enter_commit by blast
next
  fix sel
  assume "selectedId s = Some sel"
  then show "fuseId sel \<in> set (fusedIds (gmask (snd (snd (onPointerUpBrush (True, s))))))"
    by (rule onPointerUpBrush_adds)
next
  show "set (fusedIds (gmask s)) \<subseteq> set (fusedIds (gmask (snd (snd (onKeyDown gn key (c, s))))))"
    by (rule onKeyDown_known)
next
  show "set (fusedIds (gmask s)) \<subseteq> set (fusedIds (gmask (snd (snd (onPointerUpBrush (a, s))))))"
    by (rule onPointerUpBrush_known)
next
  fix g'
  assume run: "updateByPolygon vs target ft g = Inr g'"
  then show "set (fusedIds g) \<subseteq> set (fusedIds g')"
    by (rule updateByPolygon_known)
next
  fix g'
  assume run: "updateByMaskInRoi stamp box target ft g = Inr g'"
  then show "set (fusedIds g) \<subseteq> set (fusedIds g')"
    by (rule updateByMaskInRoi_known)
qed

theorem known_ids_added_on_commit_never_removed_witness:
  "tempPolygon removeController = Some (squarePolygon @ [(1, 3)]) \<and>
   2 < length (butlast (squarePolygon @ [(1, 3)])) \<and>
   fuseId (3, 0, 2)
     \<in> set (fusedIds (gmask (snd (snd (onKeyDown (\<lambda>m. (0, 0)) ''Enter''
            (removeController, emptySeg)))))) \<and>
   selectedId emptySeg = Some (3, 0, 2) \<and>
   fuseId (3, 0, 2) \<in> set (fusedIds (gmask (snd (snd (onPointerUpBrush (True, emptySeg)))))) \<and>
   (\<exists>g'. updateByPolygon squarePolygon (9, 0, 7) Add lockedMask = Inr g' \<and>
      set (fusedIds lockedMask) \<subseteq> set (fusedIds g'))"
proof -
  have tp: "tempPolygon removeController = Some (squarePolygon @ [(1, 3)])"
    by (simp add: removeController_def)
  have len: "2 < length (butlast (squarePolygon @ [(1, 3)]))"
    by (simp add: squarePolygon_def)
  have tv: "fst (getTargetValue (\<lambda>m. (0, 0)) (editionMode removeController) emptySeg) = (3, 0, 2)"
    by code_simp
  have sel: "selectedId emptySeg = Some (3, 0, 2)"
    by (simp add: emptySeg_def)
  have ok: "isl (updateByPolygon squarePolygon (9, 0, 7) Add lockedMask) = False"
    by code_simp
  obtain g1 where g1: "updateByPolygon squarePolygon (9, 0, 7) Add lockedMask = Inr g1"
    using ok by (cases "updateByPolygon squarePolygon (9, 0, 7) Add lockedMask") auto
  note inst = known_ids_added_on_commit_never_removed [where c = removeController
      and s = emptySeg and gn = "\<lambda>m. (0, 0)" and vs = squarePolygon and target = "(9, 0, 7)"
      and ft = Add and g = lockedMask]
  have k: "fuseId (3, 0, 2)
     \<in> set (fusedIds (gmask (snd (snd (onKeyDown (\<lambda>m. (0, 0)) ''Enter''
            (removeController, emptySeg))))))"
    using inst tp len tv by metis
  have b: "fuseId (3, 0, 2) \<in> set (fusedIds (gmask (snd (snd (onPointerUpBrush (True, emptySeg))))))"
    using inst sel by blast
  have p: "set (fusedIds lockedMask) \<subseteq> set (fusedIds g1)"
    using inst g1 by blast
  show ?thesis
    using tp len k sel b g1 p by blast
qed

text \<open>
  The claim as stated fails in its "only then": a polygon committed in the remove mode
  on an empty mask writes no pixel (the raster is as before) and the fused id of its
  target is a known id afterwards, while it was not before.
\<close>

theorem known_id_added_without_pixel_written:
  "\<not> list_ex (writes (coveredByPolygon squarePolygon 4) (3, 0, 2) Remove (gmask emptySeg)) [0..<16] \<and>
   fst (onKeyDown (\<lambda>m. (0, 0)) ''Enter'' (removeController, emptySeg)) = None \<and>
   raster (gmask (snd (snd (onKeyDown (\<lambda>m. (0, 0)) ''Enter'' (removeController, emptySeg))))) =
     raster (gmask emptySeg) \<and>
   fusedIds (gmask emptySeg) = [] \<and>
   fusedIds (gmask (snd (snd (onKeyDown (\<lambda>m. (0, 0)) ''Enter'' (removeController, emptySeg))))) =
     [fuseId (3, 0, 2)]"
  by code_simp

section \<open>The filter of small blobs\<close>





section \<open>Export and import of the raster\<close>






section \<open>The filter with the painter of the spec\<close>

text \<open>
  With the painter of the spec, the ring example ends with the ring cleared and the
  enclosed pixel, which held another identity, holding the filtered identity: the
  \<open>add\<close> of the hole comes last and writes the target over it.
\<close>

lemma filterId_ring_example:
  "map_sum id raster
     (filterId (\<lambda>g t e. Inr [(0, ringBlob)]) canvas_width updateByPolygon (1, 0, 5) 10 ringMask) =
   Inr [0, 0, 0, 255,  0, 0, 0, 255,  0, 0, 0, 255,
        0, 0, 0, 255,  1, 0, 5, 255,  0, 0, 0, 255,
        0, 0, 0, 255,  0, 0, 0, 255,  0, 0, 0, 255]"
proof -
  let ?outer = "[(0, 0), (3, 0), (3, 3), (0, 3)] :: point list"
  let ?hole = "[(1, 1), (2, 1), (2, 2), (1, 2)] :: point list"
  let ?r1 = "[0, 0, 0, 255,  0, 0, 0, 255,  0, 0, 0, 255,
        0, 0, 0, 255,  2, 0, 6, 255,  0, 0, 0, 255,
        0, 0, 0, 255,  0, 0, 0, 255,  0, 0, 0, 255] :: byte list"
  have v: "validIdent (1, 0, 5)"
    by (simp add: validIdent_def)
  obtain g1 where p1: "paint (coveredByPolygon ?outer 3) (1, 0, 5) Remove ringMask = Inr g1"
    using v by (simp add: paint_def)
  have dims1: "canvas_width g1 = 3" "canvas_height g1 = 3" "lockedInstances g1 = []"
    using paint_Inr [OF p1] by (simp_all add: ringMask_def)
  have r1: "raster g1 = ?r1"
    unfolding paint_raster_fields [OF p1, of "raster ringMask" "lockedInstances ringMask" 9,
        simplified ringMask_def, simplified]
    by code_simp
  obtain g2 where p2: "paint (coveredByPolygon ?hole 3) (1, 0, 5) Add g1 = Inr g2"
    using v by (simp add: paint_def)
  have r2: "raster g2 = [0, 0, 0, 255,  0, 0, 0, 255,  0, 0, 0, 255,
        0, 0, 0, 255,  1, 0, 5, 255,  0, 0, 0, 255,
        0, 0, 0, 255,  0, 0, 0, 255,  0, 0, 0, 255]"
    unfolding paint_raster_fields [OF p2 r1 dims1(3), of 9, simplified dims1, simplified]
    by code_simp
  have "filterId (\<lambda>g t e. Inr [(0, ringBlob)]) canvas_width updateByPolygon (1, 0, 5) 10 ringMask
      = Inr g2"
    using p1 p2 dims1
    by (simp add: filterId_def filterContour_def ringBlob_def convertIndexToDict_def
        updateByPolygon_def ringMask_def)
  then show ?thesis
    using r2 by simp
qed

text \<open>
  C1 (as amended): take a mask whose pixels of a non-background identity are exactly
  two disjoint sets, of 3 and of 50 pixels, reported by the extractor as two blobs of
  3 and 50 pixels, the small one with a single external contour whose polygon covers
  exactly its 3 pixels. If the identity is not locked, \<open>filterId\<close> with the
  minimum 10 returns a mask in which the pixels of the identity are exactly the 50 of
  the large blob: the 3 pixels are background and every other pixel is as before.
\<close>

theorem filterId_keeps_only_large_blob:
  assumes blobs: "getBlobs g tid None = Inr [(k1, small), (k2, large)] \<or>
                  getBlobs g tid None = Inr [(k2, large), (k1, small)]"
    and sizes: "nbPixels small = 3" "nbPixels large = 50"
    and contour: "contours small = [c]" "ctype c = ''external''" "3 \<le> length (points c)"
    and covers: "\<forall>idx < canvas_width g * canvas_height g.
        coveredByPolygon (convertIndexToDict (points c) (canvas_width g + 1)) (canvas_width g) idx
          = (idx \<in> S3)"
    and pixels: "\<forall>idx < canvas_width g * canvas_height g.
        (decodeAt (raster g) idx = tid) = (idx \<in> S3 \<union> S50)"
    and sets: "S3 \<inter> S50 = {}" "card S3 = 3" "card S50 = 50"
        "S3 \<union> S50 \<subseteq> {..< canvas_width g * canvas_height g}"
    and size: "length (raster g) = canvas_width g * canvas_height g * 4"
    and bg: "tid \<noteq> (0, 0, 0)"
    and unlocked: "fuseId tid \<notin> set (lockedInstances g)"
  shows "\<exists>g'. filterId getBlobs canvas_width updateByPolygon tid 10 g = Inr g' \<and>
          (\<forall>idx < canvas_width g * canvas_height g.
             (decodeAt (raster g') idx = tid) = (idx \<in> S50) \<and>
             (idx \<in> S3 \<longrightarrow> decodeAt (raster g') idx = (0, 0, 0)) \<and>
             (idx \<notin> S3 \<longrightarrow> decodeAt (raster g') idx = decodeAt (raster g) idx))"
proof -
  let ?n = "canvas_width g * canvas_height g"
  let ?arr = "convertIndexToDict (points c) (canvas_width g + 1)"
  let ?cov = "coveredByPolygon ?arr (canvas_width g)"
  have "S3 \<noteq> {}"
    using sets(2) by auto
  then obtain i where i: "i \<in> S3" by blast
  then have "i < ?n" using sets(4) by auto
  then have "decodeAt (raster g) i = tid"
    using pixels i by simp
  then have valid: "validIdent tid"
    using decodeAt_valid [of "raster g" i] by simp
  have run: "filterId getBlobs canvas_width updateByPolygon tid 10 g =
      updateByPolygon ?arr tid Remove g"
    using blobs by (auto simp: filterId_def filterContour_def sizes contour split: sum.splits)
  have "length ?arr = length (points c)"
    by (simp add: convertIndexToDict_def)
  then have "updateByPolygon ?arr tid Remove g = paint ?cov tid Remove g"
    using contour(3) by (simp add: updateByPolygon_def)
  then obtain g' where g': "paint ?cov tid Remove g = Inr g'"
    and res: "filterId getBlobs canvas_width updateByPolygon tid 10 g = Inr g'"
    using run valid by (simp add: paint_def)
  have px: "decodeAt (raster g') idx =
      (if idx \<in> S3 then (0, 0, 0) else decodeAt (raster g) idx)" if lt: "idx < ?n" for idx
  proof -
    have r: "4 * idx + 3 < length (raster g)"
      using lt size by simp
    have "writes ?cov tid Remove g idx = (idx \<in> S3)"
      using lt r covers pixels unlocked by (auto simp: writes_def writeRule_def)
    then show ?thesis
      using paint_pixel(1) [OF g' r] by (simp add: writtenIdent_def)
  qed
  have "(decodeAt (raster g') idx = tid) = (idx \<in> S50) \<and>
        (idx \<in> S3 \<longrightarrow> decodeAt (raster g') idx = (0, 0, 0)) \<and>
        (idx \<notin> S3 \<longrightarrow> decodeAt (raster g') idx = decodeAt (raster g) idx)"
    if lt: "idx < ?n" for idx
    using px [OF lt] pixels lt sets(1) bg by auto
  then show ?thesis
    using res by blast
qed

theorem filterId_keeps_only_large_blob_witness:
  "twoBlobs blobMask (1, 0, 5) None = Inr [(1, smallBlob), (2, largeBlob)] \<and>
   nbPixels smallBlob = 3 \<and> nbPixels largeBlob = 50 \<and>
   fuseId (1, 0, 5) \<notin> set (lockedInstances blobMask) \<and>
   list_all (\<lambda>idx. (decodeAt (raster blobMask) idx = (1, 0, 5)) = (idx \<in> {0, 1, 2} \<union> {20..<70}))
     [0..<70] \<and>
   (\<exists>g'. filterId twoBlobs canvas_width updateByPolygon (1, 0, 5) 10 blobMask = Inr g' \<and>
      list_all (\<lambda>idx. (decodeAt (raster g') idx = (1, 0, 5)) = (idx \<in> {20..<70})) [0..<70] \<and>
      decodeAt (raster g') 0 = (0, 0, 0) \<and> decodeAt (raster g') 20 = (1, 0, 5))"
proof -
  let ?c = "\<lparr>points = [0, 3, 14, 11], ctype = ''external''\<rparr>"
  have dims: "canvas_width blobMask * canvas_height blobMask = 70"
    by (simp add: blobMask_def)
  have blobs: "twoBlobs blobMask (1, 0, 5) None = Inr [(1, smallBlob), (2, largeBlob)] \<or>
               twoBlobs blobMask (1, 0, 5) None = Inr [(2, largeBlob), (1, smallBlob)]"
    by (simp add: twoBlobs_def)
  have sizes: "nbPixels smallBlob = 3" "nbPixels largeBlob = 50"
    by (simp_all add: smallBlob_def largeBlob_def)
  have contour: "contours smallBlob = [?c]" "ctype ?c = ''external''" "3 \<le> length (points ?c)"
    by (simp_all add: smallBlob_def)
  have "list_all (\<lambda>idx.
        coveredByPolygon (convertIndexToDict (points ?c) (canvas_width blobMask + 1))
          (canvas_width blobMask) idx = (idx \<in> {0, 1, 2}))
        [0..<canvas_width blobMask * canvas_height blobMask]"
    by code_simp
  then have covers: "\<forall>idx < canvas_width blobMask * canvas_height blobMask.
        coveredByPolygon (convertIndexToDict (points ?c) (canvas_width blobMask + 1))
          (canvas_width blobMask) idx = (idx \<in> {0, 1, 2})"
    by (simp only: all_below_list)
  have ev: "list_all (\<lambda>idx. (decodeAt (raster blobMask) idx = (1, 0, 5)) =
        (idx \<in> {0, 1, 2} \<union> {20..<70})) [0..<70]"
    by code_simp
  then have pixels: "\<forall>idx < canvas_width blobMask * canvas_height blobMask.
        (decodeAt (raster blobMask) idx = (1, 0, 5)) = (idx \<in> {0, 1, 2} \<union> {20..<70})"
    by (simp only: all_below_list dims)
  have sets: "{0, 1, 2} \<inter> {20..<70} = ({} :: nat set)" "card {0, 1, 2 :: nat} = 3"
      "card {20..<70 :: nat} = 50"
      "{0, 1, 2} \<union> {20..<70} \<subseteq> {..< canvas_width blobMask * canvas_height blobMask}"
    by (auto simp: dims)
  have size: "length (raster blobMask) = canvas_width blobMask * canvas_height blobMask * 4"
    by code_simp
  have bg: "(1, 0, 5) \<noteq> (0 :: int, 0 :: int, 0 :: int)"
    by simp
  have unlocked: "fuseId (1, 0, 5) \<notin> set (lockedInstances blobMask)"
    by (simp add: blobMask_def)
  obtain g' where run: "filterId twoBlobs canvas_width updateByPolygon (1, 0, 5) 10 blobMask = Inr g'"
    and all: "\<forall>idx < canvas_width blobMask * canvas_height blobMask.
             (decodeAt (raster g') idx = (1, 0, 5)) = (idx \<in> {20..<70}) \<and>
             (idx \<in> {0, 1, 2} \<longrightarrow> decodeAt (raster g') idx = (0, 0, 0)) \<and>
             (idx \<notin> {0, 1, 2} \<longrightarrow> decodeAt (raster g') idx = decodeAt (raster blobMask) idx)"
    using filterId_keeps_only_large_blob [where getBlobs = twoBlobs and g = blobMask
        and tid = "(1, 0, 5)" and ?k1.0 = 1 and small = smallBlob and ?k2.0 = 2
        and large = largeBlob and c = ?c and ?S3.0 = "{0, 1, 2}" and ?S50.0 = "{20..<70}",
        OF blobs sizes contour covers pixels sets size bg unlocked]
    by blast
  have a1: "list_all (\<lambda>idx. (decodeAt (raster g') idx = (1, 0, 5)) = (idx \<in> {20..<70})) [0..<70]"
    using all by (simp add: dims list_all_iff)
  have a2: "decodeAt (raster g') 0 = (0, 0, 0)"
    using spec [OF all, of 0] by (simp add: dims)
  have a3: "decodeAt (raster g') 20 = (1, 0, 5)"
    using spec [OF all, of 20] by (simp add: dims)
  show ?thesis
    using blobs sizes unlocked ev run a1 a2 a3 by (simp add: twoBlobs_def)
qed

text \<open>
  The claim as stated, without the condition on the lock, fails: on the same mask with
  the identity locked, the filter leaves the raster as it was, the small blob included.
\<close>

theorem filterId_locked_small_blob_stays:
  "list_all (\<lambda>idx. (decodeAt (raster blobMask) idx = (1, 0, 5)) = (idx \<in> {0, 1, 2} \<union> {20..<70}))
     [0..<70] \<and>
   map_sum id raster (filterId twoBlobs canvas_width updateByPolygon (1, 0, 5) 10
      (blobMask\<lparr>lockedInstances := [fuseId (1, 0, 5)]\<rparr>)) = Inr (raster blobMask) \<and>
   decodeAt (raster blobMask) 0 = (1, 0, 5)"
  by code_simp

end
